theory Spec2Isabelle
  imports Complex_Main
begin

section \<open>The bottom sheet of \<^verbatim>\<open>src/index.tsx\<close> as a state machine\<close>

text \<open>
  The component \<^verbatim>\<open>BottomSheet\<close> is a function of its props that keeps one React
  state cell (\<^verbatim>\<open>isOpen\<close>), one animated shared value (\<^verbatim>\<open>offset\<close>), a ref to the
  inner scroll view and three \<^verbatim>\<open>let\<close> variables shared by its handlers
  (\<^verbatim>\<open>canClose\<close>, \<^verbatim>\<open>startedClosing\<close>, \<^verbatim>\<open>startY\<close>). Each handler is embedded as a
  function from the state before to the state after. JavaScript numbers are modelled as
  \<^typ>\<open>real\<close>: comparisons and the one sum of the pan handler are taken exactly.
\<close>

subsection \<open>Props\<close>

text \<open>
  Only the props the handlers read. An optional prop is an \<^typ>\<open>'a option\<close>, with
  \<^term>\<open>None\<close> for \<^verbatim>\<open>undefined\<close>. The callback \<^verbatim>\<open>onVisibilityChange\<close> is opaque:
  the props say whether it is supplied, and the state logs each call made to it.
  \<^verbatim>\<open>windowHeight\<close> is what \<^verbatim>\<open>Dimensions.get('window').height\<close> returns.
\<close>

record BottomSheetProps =
  visible :: bool
  onVisibilityChangeDefined :: bool
  swipeDownThreshold :: "real option"
  interactiveMaxHeight :: "real option"
  customSheetMass :: "real option"
  customSheetDamping :: "real option"
  useEnteringAndExitingAnimations :: "bool option"
  windowHeight :: real

text \<open>\<^verbatim>\<open>const height = props.interactiveMaxHeight ?? Dimensions.get('window').height\<close>\<close>

definition height :: "BottomSheetProps \<Rightarrow> real" where
  "height p = (case interactiveMaxHeight p of Some h \<Rightarrow> h | None \<Rightarrow> windowHeight p)"

text \<open>
  The test \<^verbatim>\<open>props.useEnteringAndExitingAnimations === false\<close>, which every handler
  branches on. Where it holds the sheet is always mounted; otherwise (the prop is
  \<^verbatim>\<open>true\<close> or \<^verbatim>\<open>undefined\<close>) the sheet is mounted on demand.
\<close>

definition alwaysMounted :: "BottomSheetProps \<Rightarrow> bool" where
  "alwaysMounted p = (useEnteringAndExitingAnimations p = Some False)"

subsection \<open>The shared value and its animations\<close>

text \<open>
  \<^verbatim>\<open>withSpring(to, {damping, mass})\<close> and \<^verbatim>\<open>withTiming(to, {}, callback)\<close>. The only
  callback the source passes is \<^verbatim>\<open>() => runOnJS(closeSheet)(false)\<close>, kept as the
  argument it gives to \<^verbatim>\<open>closeSheet\<close>. A config key that is not written is
  \<^term>\<open>None\<close>.
\<close>

datatype callback = CloseSheet bool

datatype animation =
  WithSpring real "real option" "real option"
| WithTiming real "callback option"

fun target :: "animation \<Rightarrow> real" where
  "target (WithSpring to damping mass) = to"
| "target (WithTiming to cb) = to"

text \<open>
  A shared value has the number it currently reads as and the animation that drives it,
  if one runs. Assigning a number stops the animation; assigning an animation starts it
  from the current number.
\<close>

record sharedValue =
  current :: real
  running :: "animation option"

definition assignNumber :: "real \<Rightarrow> sharedValue \<Rightarrow> sharedValue" where
  "assignNumber v sv = \<lparr>current = v, running = None\<rparr>"

definition assignAnimation :: "animation \<Rightarrow> sharedValue \<Rightarrow> sharedValue" where
  "assignAnimation a sv = sv\<lparr>running := Some a\<rparr>"

text \<open>Where the value comes to rest once the running animation has run out.\<close>

definition restingValue :: "sharedValue \<Rightarrow> real" where
  "restingValue sv = (case running sv of None \<Rightarrow> current sv | Some a \<Rightarrow> target a)"

subsection \<open>The state of one component instance\<close>

text \<open>
  \<^verbatim>\<open>scrollView\<close> is the inner \<^verbatim>\<open>ScrollView\<close> behind \<^verbatim>\<open>scrollViewRef\<close>:
  \<^term>\<open>None\<close> while it is not mounted (the ref is \<^verbatim>\<open>null\<close>), otherwise its vertical
  content offset. \<^verbatim>\<open>calls\<close> lists the arguments \<^verbatim>\<open>props.onVisibilityChange\<close> has
  been called with, oldest first.
\<close>

record state =
  isOpen :: bool
  offset :: sharedValue
  canClose :: bool
  startedClosing :: bool
  startY :: real
  scrollView :: "real option"
  calls :: "bool list"

subsection \<open>closeSheet and openSheet\<close>

text \<open>
  Both end with \<^verbatim>\<open>if (updateOnChange && props?.onVisibilityChange !== undefined)
  props.onVisibilityChange(b)\<close>, with \<^verbatim>\<open>false\<close> for \<open>b\<close> in \<^verbatim>\<open>closeSheet\<close> and
  \<^verbatim>\<open>true\<close> in \<^verbatim>\<open>openSheet\<close>; the call is logged.
\<close>

definition closeSheet :: "BottomSheetProps \<Rightarrow> bool \<Rightarrow> state \<Rightarrow> state" where
  "closeSheet p updateOnChange st =
     (let st1 =
        (if useEnteringAndExitingAnimations p = Some False then
           st\<lparr>offset := assignAnimation
                  (WithSpring (height p)
                     (Some (case customSheetDamping p of Some d \<Rightarrow> d | None \<Rightarrow> 400))
                     (Some (case customSheetMass p of Some m \<Rightarrow> m | None \<Rightarrow> 4 / 10)))
                  (offset st)\<rparr>
         else st\<lparr>offset := assignNumber 0 (offset st), isOpen := False\<rparr>)
      in if updateOnChange \<and> onVisibilityChangeDefined p
         then st1\<lparr>calls := calls st1 @ [False]\<rparr> else st1)"

text \<open>
  \<^verbatim>\<open>scrollViewRef.current?.scrollTo({ y: 0, animated: false })\<close> moves a mounted
  scroll view to the top and does nothing while the ref is \<^verbatim>\<open>null\<close>.
\<close>

definition scrollToTop :: "real option \<Rightarrow> real option" where
  "scrollToTop sv = (case sv of None \<Rightarrow> None | Some y \<Rightarrow> Some 0)"

definition openSheet :: "BottomSheetProps \<Rightarrow> bool \<Rightarrow> state \<Rightarrow> state" where
  "openSheet p updateOnChange st =
     (let st1 =
        (if useEnteringAndExitingAnimations p = Some False then
           st\<lparr>offset := assignAnimation
                  (WithSpring 0
                     (Some (case customSheetDamping p of Some d \<Rightarrow> d | None \<Rightarrow> 400))
                     (Some (case customSheetMass p of Some m \<Rightarrow> m | None \<Rightarrow> 4 / 10)))
                  (offset st),
              scrollView := scrollToTop (scrollView st)\<rparr>
         else st\<lparr>offset := assignNumber 0 (offset st), isOpen := True\<rparr>)
      in if updateOnChange \<and> onVisibilityChangeDefined p
         then st1\<lparr>calls := calls st1 @ [True]\<rparr> else st1)"

text \<open>The effect on \<^verbatim>\<open>props.visible\<close>.\<close>

definition useEffectVisible :: "BottomSheetProps \<Rightarrow> state \<Rightarrow> state" where
  "useEffectVisible p st = (if visible p then openSheet p False st else closeSheet p False st)"

subsection \<open>The scroll and pan handlers\<close>

definition onScroll :: "BottomSheetProps \<Rightarrow> real \<Rightarrow> state \<Rightarrow> state" where
  "onScroll p y st =
     (if useEnteringAndExitingAnimations p = Some False then
        (if y \<le> 5 then st\<lparr>canClose := True\<rparr>
         else if y \<ge> 5 then st\<lparr>canClose := False\<rparr>
         else if startedClosing st = False then st\<lparr>canClose := False\<rparr>
         else st)
      else
        (if y \<le> 5 \<and> current (offset st) \<le> 5 then st\<lparr>canClose := True\<rparr>
         else if startedClosing st = False then st\<lparr>canClose := False\<rparr>
         else st))"

definition handlePanGestureEvent :: "real \<Rightarrow> state \<Rightarrow> state" where
  "handlePanGestureEvent y st =
     (if canClose st then
        (let st1 = st\<lparr>startedClosing := True\<rparr>;
             st2 = (if startY st1 = 0 then st1\<lparr>startY := y\<rparr> else st1);
             offsetDelta = (startY st2 - y) * (- 1) + current (offset st2)
         in st2\<lparr>offset := assignNumber (if offsetDelta > 0 then offsetDelta else 0) (offset st2)\<rparr>)
      else st)"

definition threshold :: "BottomSheetProps \<Rightarrow> real" where
  "threshold p = (case swipeDownThreshold p of Some t \<Rightarrow> t | None \<Rightarrow> 50)"

definition handlePanGestureEnd :: "BottomSheetProps \<Rightarrow> state \<Rightarrow> state" where
  "handlePanGestureEnd p st =
     (let st1 = st\<lparr>startedClosing := False\<rparr> in
      if current (offset st1) < threshold p then
        st1\<lparr>offset := assignAnimation (WithSpring 0 (Some 100) None) (offset st1),
            canClose := True\<rparr>
      else
        (let st2 = closeSheet p True st1 in
         st2\<lparr>offset :=
               assignAnimation (WithTiming (height p) (Some (CloseSheet False))) (offset st2)\<rparr>))"

definition handlePanGestureStart :: "state \<Rightarrow> state" where
  "handlePanGestureStart st = st\<lparr>startY := 0\<rparr>"

subsection \<open>What is rendered\<close>

text \<open>
  The sheet subtree, with the scroll view in it, is rendered under the condition
  \<^verbatim>\<open>isOpen || props.useEnteringAndExitingAnimations === false\<close>.
\<close>

definition mounted :: "BottomSheetProps \<Rightarrow> state \<Rightarrow> bool" where
  "mounted p st = (isOpen st \<or> useEnteringAndExitingAnimations p = Some False)"

text \<open>
  One run of the component function. It declares the three \<^verbatim>\<open>let\<close> variables anew
  (\<^verbatim>\<open>canClose = true\<close>, \<^verbatim>\<open>startedClosing = false\<close>, \<^verbatim>\<open>startY = 0\<close>) and hands
  the host new handlers that close over them, and it renders the subtree or not. A scroll
  view that was rendered before keeps its position; one that is newly mounted starts at
  the top (the host's initial content offset), and one that is no longer rendered is gone.
\<close>

definition render :: "BottomSheetProps \<Rightarrow> state \<Rightarrow> state" where
  "render p st =
     st\<lparr>canClose := True, startedClosing := False, startY := 0,
        scrollView :=
          (if mounted p st then (case scrollView st of None \<Rightarrow> Some 0 | Some y \<Rightarrow> Some y)
           else None)\<rparr>"

text \<open>
  \<^verbatim>\<open>setOpen\<close> with a new value makes React run the component function again once the
  handler that called it has returned.
\<close>

definition commit :: "BottomSheetProps \<Rightarrow> state \<Rightarrow> state \<Rightarrow> state" where
  "commit p old new = (if isOpen new \<noteq> isOpen old then render p new else new)"

text \<open>
  The \<^verbatim>\<open>entering\<close> and \<^verbatim>\<open>exiting\<close> props of the sheet's \<^verbatim>\<open>Animated.View\<close>:
  \<^verbatim>\<open>SlideInDown.springify().mass(m).damping(d)\<close> and the same on \<^verbatim>\<open>SlideOutDown\<close>,
  or \<^verbatim>\<open>undefined\<close>. The arguments are mass, then damping.
\<close>

datatype layoutAnimation =
  SlideInDownSpring real real
| SlideOutDownSpring real real

definition sheetEntering :: "BottomSheetProps \<Rightarrow> layoutAnimation option" where
  "sheetEntering p =
     (if useEnteringAndExitingAnimations p = Some False then None
      else Some (SlideInDownSpring
                   (case customSheetMass p of Some m \<Rightarrow> m | None \<Rightarrow> 4 / 10)
                   (case customSheetDamping p of Some d \<Rightarrow> d | None \<Rightarrow> 100)))"

definition sheetExiting :: "BottomSheetProps \<Rightarrow> layoutAnimation option" where
  "sheetExiting p =
     (if useEnteringAndExitingAnimations p = Some False then None
      else Some (SlideOutDownSpring
                   (case customSheetMass p of Some m \<Rightarrow> m | None \<Rightarrow> 4 / 10)
                   (case customSheetDamping p of Some d \<Rightarrow> d | None \<Rightarrow> 100)))"

subsection \<open>Events\<close>

text \<open>
  The gesture handler reports a change of its state; the source acts on \<^verbatim>\<open>State.END\<close>
  and \<^verbatim>\<open>State.BEGAN\<close> and ignores the others.
\<close>

datatype gestureState = UNDETERMINED | FAILED | BEGAN | CANCELLED | ACTIVE | END

definition onHandlerStateChange :: "BottomSheetProps \<Rightarrow> gestureState \<Rightarrow> state \<Rightarrow> state" where
  "onHandlerStateChange p g st =
     (if g = END then handlePanGestureEnd p st
      else if g = BEGAN then handlePanGestureStart st
      else st)"

text \<open>Pressing the \<^verbatim>\<open>TouchableOpacity\<close> above the content.\<close>

definition onPress :: "BottomSheetProps \<Rightarrow> state \<Rightarrow> state" where
  "onPress p st = closeSheet p True st"

text \<open>
  The running animation reaches its target: the value reads as the target, and a timing
  animation then runs its callback.
\<close>

definition runCallback :: "BottomSheetProps \<Rightarrow> callback option \<Rightarrow> state \<Rightarrow> state" where
  "runCallback p cb st = (case cb of None \<Rightarrow> st | Some (CloseSheet b) \<Rightarrow> closeSheet p b st)"

definition animationDone :: "BottomSheetProps \<Rightarrow> state \<Rightarrow> state" where
  "animationDone p st =
     (case running (offset st) of
        None \<Rightarrow> st
      | Some (WithSpring to d m) \<Rightarrow> st\<lparr>offset := \<lparr>current = to, running = None\<rparr>\<rparr>
      | Some (WithTiming to cb) \<Rightarrow>
          runCallback p cb (st\<lparr>offset := \<lparr>current = to, running = None\<rparr>\<rparr>))"

text \<open>While an animation runs, each frame gives the value a new reading.\<close>

definition animationFrame :: "real \<Rightarrow> state \<Rightarrow> state" where
  "animationFrame v st =
     (if running (offset st) = None then st else st\<lparr>offset := (offset st)\<lparr>current := v\<rparr>\<rparr>)"

text \<open>
  What can happen to a mounted component. \<open>SetVisible\<close> is a render by the parent with
  the given \<^verbatim>\<open>visible\<close>: the props object is new, so \<^verbatim>\<open>openSheet\<close> and
  \<^verbatim>\<open>closeSheet\<close> are new and the effect runs after the render. The other props stay as
  they are. \<open>Scroll\<close> is a scroll of the mounted scroll view to the reported position.
  \<open>TimingCallback\<close> is the callback of an earlier timing animation run apart from the
  animation's end (the animation runtime also calls it when a later assignment cuts the
  animation short).
\<close>

datatype event =
  SetVisible bool
| Scroll real
| HandlerStateChange gestureState
| PanMove real
| Press
| Frame real
| AnimationDone
| TimingCallback

fun step :: "event \<Rightarrow> BottomSheetProps \<times> state \<Rightarrow> BottomSheetProps \<times> state" where
  "step (SetVisible v) (p, st) =
     (let p' = p\<lparr>visible := v\<rparr>; st1 = render p' st
      in (p', commit p' st1 (useEffectVisible p' st1)))"
| "step (Scroll y) (p, st) =
     (p, case scrollView st of None \<Rightarrow> st | Some y0 \<Rightarrow> onScroll p y (st\<lparr>scrollView := Some y\<rparr>))"
| "step (HandlerStateChange g) (p, st) = (p, commit p st (onHandlerStateChange p g st))"
| "step (PanMove y) (p, st) = (p, handlePanGestureEvent y st)"
| "step Press (p, st) = (p, commit p st (onPress p st))"
| "step (Frame v) (p, st) = (p, animationFrame v st)"
| "step AnimationDone (p, st) = (p, commit p st (animationDone p st))"
| "step TimingCallback (p, st) = (p, commit p st (closeSheet p False st))"

fun run :: "event list \<Rightarrow> BottomSheetProps \<times> state \<Rightarrow> BottomSheetProps \<times> state" where
  "run [] c = c"
| "run (e # es) c = run es (step e c)"

text \<open>
  Mounting the component: \<^verbatim>\<open>useState(props.visible)\<close>, \<^verbatim>\<open>useSharedValue(height)\<close>,
  the first render, then the effect.
\<close>

definition initialState :: "BottomSheetProps \<Rightarrow> state" where
  "initialState p =
     \<lparr>isOpen = visible p, offset = \<lparr>current = height p, running = None\<rparr>,
      canClose = True, startedClosing = False, startY = 0, scrollView = None, calls = []\<rparr>"

definition mount :: "BottomSheetProps \<Rightarrow> state" where
  "mount p = (let st1 = render p (initialState p) in commit p st1 (useEffectVisible p st1))"

subsection \<open>Concrete inputs\<close>

text \<open>
  The props of the example application (\<^verbatim>\<open>swipeDownThreshold={100}\<close>, a callback, no
  other prop the handlers read) on a window 800 pixels high, and the same with
  \<^verbatim>\<open>useEnteringAndExitingAnimations={false}\<close>.
\<close>

definition exampleProps :: BottomSheetProps where
  "exampleProps =
     \<lparr>visible = True, onVisibilityChangeDefined = True, swipeDownThreshold = Some 100,
      interactiveMaxHeight = None, customSheetMass = None, customSheetDamping = None,
      useEnteringAndExitingAnimations = None, windowHeight = 800\<rparr>"

definition examplePropsAlwaysMounted :: BottomSheetProps where
  "examplePropsAlwaysMounted = exampleProps\<lparr>useEnteringAndExitingAnimations := Some False\<rparr>"

text \<open>An open sheet at rest, scrolled to the given position and dragged to the given offset.\<close>

definition openState :: "real \<Rightarrow> real \<Rightarrow> state" where
  "openState y off =
     \<lparr>isOpen = True, offset = \<lparr>current = off, running = None\<rparr>,
      canClose = True, startedClosing = False, startY = 0, scrollView = Some y, calls = []\<rparr>"

section \<open>Unfolding the handlers\<close>

lemmas handler_defs =
  closeSheet_def openSheet_def assignNumber_def assignAnimation_def scrollToTop_def
  useEffectVisible_def handlePanGestureEnd_def handlePanGestureStart_def
  onHandlerStateChange_def onPress_def runCallback_def animationDone_def
  animationFrame_def render_def commit_def mounted_def Let_def

lemmas example_defs =
  exampleProps_def examplePropsAlwaysMounted_def openState_def mount_def initialState_def
  height_def threshold_def alwaysMounted_def restingValue_def

lemma run_append: "run (xs @ ys) c = run ys (run xs c)"
  by (induction xs arbitrary: c) simp_all

text \<open>
  The frames an animation shows before it ends do not matter to where it ends: the end
  overwrites the reading.
\<close>

lemma done_after_frame: "step AnimationDone (step (Frame v) c) = step AnimationDone c"
proof -
  obtain p st where c: "c = (p, st)" by (cases c)
  show ?thesis
  proof (cases "running (offset st)")
    case None
    with c show ?thesis by (simp add: animationFrame_def)
  next
    case (Some a)
    with c show ?thesis
      by (cases a) (simp_all add: animationFrame_def animationDone_def commit_def)
  qed
qed

lemma frames_then_done: "run (map Frame vs @ [AnimationDone]) c = step AnimationDone c"
proof (induction vs arbitrary: c)
  case Nil
  show ?case by simp
next
  case (Cons v vs)
  have "run (map Frame (v # vs) @ [AnimationDone]) c
          = run (map Frame vs @ [AnimationDone]) (step (Frame v) c)"
    by simp
  also have "\<dots> = step AnimationDone (step (Frame v) c)"
    by (rule Cons.IH)
  finally show ?case
    by (simp only: done_after_frame)
qed

lemma release_then_done:
  "run (HandlerStateChange END # map Frame vs @ [AnimationDone]) c
     = step AnimationDone (step (HandlerStateChange END) c)"
  by (simp add: frames_then_done)

section \<open>Scroll updates\<close>

text \<open>
  C1, in the form that holds of the code. A scroll update changes \<^verbatim>\<open>canClose\<close> and nothing else. In
  always-mounted mode (\<^verbatim>\<open>useEnteringAndExitingAnimations === false\<close>) the new value
  depends on the scroll position alone: true when it is at most 5, false when it is
  more. In mounted-on-demand mode it is true when the scroll position is at most 5 and
  the sheet offset is at most 5; otherwise it is false, unless a close-drag has started,
  in which case it keeps its value.
\<close>

theorem onScroll_canClose:
  "onScroll p y st =
     st\<lparr>canClose :=
          (if alwaysMounted p then y \<le> 5
           else if y \<le> 5 \<and> current (offset st) \<le> 5 then True
           else if startedClosing st then canClose st
           else False)\<rparr>"
  by (simp add: onScroll_def alwaysMounted_def)

theorem onScroll_canClose_witness:
  "canClose (onScroll examplePropsAlwaysMounted 5 (openState 5 300))
   \<and> \<not> canClose (onScroll exampleProps 5 (openState 5 300))"
  using onScroll_canClose [of examplePropsAlwaysMounted 5 "openState 5 300"]
    onScroll_canClose [of exampleProps 5 "openState 5 300"]
  by (simp add: example_defs)

text \<open>
  The specification has the two modes the other way round. An always-mounted sheet that is
  still 800 pixels from its open position (it has just been mounted visible and its
  spring has not moved yet) gets \<^verbatim>\<open>canClose\<close> back from a scroll to the top; a sheet
  mounted on demand at offset 300, scrolled to the top, loses it.
\<close>

theorem onScroll_modes_counterexample:
  "canClose (snd (run [Scroll 100, Scroll 0]
       (examplePropsAlwaysMounted, mount examplePropsAlwaysMounted)))
   \<and> \<not> canClose (snd (run [Scroll 100]
       (examplePropsAlwaysMounted, mount examplePropsAlwaysMounted)))
   \<and> current (offset (snd (run [Scroll 100, Scroll 0]
       (examplePropsAlwaysMounted, mount examplePropsAlwaysMounted)))) = 800
   \<and> \<not> canClose (onScroll exampleProps 0 (openState 0 300))"
  by (simp add: example_defs handler_defs onScroll_def)

section \<open>Spring parameters\<close>

text \<open>
  C2, in the form that holds of the code. With neither \<^verbatim>\<open>customSheetDamping\<close> nor \<^verbatim>\<open>customSheetMass\<close>
  supplied: in always-mounted mode \<^verbatim>\<open>openSheet\<close> starts a spring to 0 and
  \<^verbatim>\<open>closeSheet\<close> a spring to \<^verbatim>\<open>height\<close>, both with damping 400 and mass 0.4, and
  the sheet has no entering or exiting transition; in mounted-on-demand mode the sheet
  slides in and out by spring transitions with mass 0.4 and damping 100, and
  \<^verbatim>\<open>openSheet\<close> and \<^verbatim>\<open>closeSheet\<close> set the offset to 0 with no spring of their own.
\<close>

theorem default_spring_parameters:
  assumes "customSheetDamping p = None" and "customSheetMass p = None"
  shows "if alwaysMounted p then
           running (offset (openSheet p b st)) = Some (WithSpring 0 (Some 400) (Some (4 / 10)))
           \<and> running (offset (closeSheet p b st))
               = Some (WithSpring (height p) (Some 400) (Some (4 / 10)))
           \<and> sheetEntering p = None \<and> sheetExiting p = None
         else
           sheetEntering p = Some (SlideInDownSpring (4 / 10) 100)
           \<and> sheetExiting p = Some (SlideOutDownSpring (4 / 10) 100)
           \<and> offset (openSheet p b st) = \<lparr>current = 0, running = None\<rparr>
           \<and> offset (closeSheet p b st) = \<lparr>current = 0, running = None\<rparr>"
  using assms
  by (simp add: alwaysMounted_def openSheet_def closeSheet_def Let_def
      assignAnimation_def assignNumber_def sheetEntering_def sheetExiting_def)

theorem default_spring_parameters_witness:
  "running (offset (openSheet examplePropsAlwaysMounted False (openState 0 800)))
     = Some (WithSpring 0 (Some 400) (Some (4 / 10)))
   \<and> running (offset (closeSheet examplePropsAlwaysMounted False (openState 0 0)))
     = Some (WithSpring 800 (Some 400) (Some (4 / 10)))
   \<and> sheetEntering exampleProps = Some (SlideInDownSpring (4 / 10) 100)
   \<and> sheetExiting exampleProps = Some (SlideOutDownSpring (4 / 10) 100)"
  using default_spring_parameters [of examplePropsAlwaysMounted False "openState 0 800"]
    default_spring_parameters [of examplePropsAlwaysMounted False "openState 0 0"]
    default_spring_parameters [of exampleProps False "openState 0 0"]
  by (simp add: example_defs)

text \<open>
  With no damping supplied, the always-mounted spring does not have damping 100 and the
  mounted-on-demand transitions do not have damping 400.
\<close>

theorem default_damping_counterexample:
  "customSheetDamping examplePropsAlwaysMounted = None
   \<and> running (offset (openSheet examplePropsAlwaysMounted False (openState 0 800)))
       \<noteq> Some (WithSpring 0 (Some 100) (Some (4 / 10)))
   \<and> running (offset (closeSheet examplePropsAlwaysMounted False (openState 0 0)))
       \<noteq> Some (WithSpring 800 (Some 100) (Some (4 / 10)))
   \<and> customSheetDamping exampleProps = None
   \<and> sheetEntering exampleProps \<noteq> Some (SlideInDownSpring (4 / 10) 400)
   \<and> sheetExiting exampleProps \<noteq> Some (SlideOutDownSpring (4 / 10) 400)"
  by (simp add: example_defs handler_defs sheetEntering_def sheetExiting_def)

section \<open>Opening\<close>

lemma step_mode:
  "useEnteringAndExitingAnimations (fst (step e (p, st))) = useEnteringAndExitingAnimations p"
  by (cases e) (simp_all add: Let_def)

lemma run_mode:
  "useEnteringAndExitingAnimations (fst (run es c)) = useEnteringAndExitingAnimations (fst c)"
proof (induction es arbitrary: c)
  case Nil
  then show ?case by simp
next
  case (Cons e es)
  obtain p st where "c = (p, st)" by (cases c)
  then show ?case
    using Cons.IH [of "step e c"] by (simp add: step_mode)
qed

lemma closeSheet_isOpen:
  "useEnteringAndExitingAnimations p \<noteq> Some False \<Longrightarrow> \<not> isOpen (closeSheet p b st)"
  by (simp add: closeSheet_def Let_def)

lemma render_isOpen: "isOpen (render p st) = isOpen st"
  by (simp add: render_def)

lemma commit_isOpen: "isOpen (commit p st0 st) = isOpen st"
  by (simp add: commit_def render_isOpen)

text \<open>
  Mounted on demand, a sheet is open only while \<^verbatim>\<open>visible\<close> is true: the effect is
  the only caller of \<^verbatim>\<open>openSheet\<close>, and everything else can only close.
\<close>

lemma step_isOpen_visible:
  assumes "useEnteringAndExitingAnimations p \<noteq> Some False"
    and "isOpen st \<longrightarrow> visible p"
  shows "isOpen (snd (step e (p, st))) \<longrightarrow> visible (fst (step e (p, st)))"
proof (cases e)
  case (SetVisible v)
  with assms(1) show ?thesis
    by (simp add: Let_def commit_isOpen useEffectVisible_def closeSheet_isOpen)
next
  case (Scroll y)
  with assms show ?thesis
    by (simp add: onScroll_def split: option.splits)
next
  case (HandlerStateChange g)
  with assms show ?thesis
    by (simp add: commit_isOpen onHandlerStateChange_def handlePanGestureEnd_def
        handlePanGestureStart_def closeSheet_isOpen Let_def)
next
  case (PanMove y)
  with assms show ?thesis
    by (simp add: handlePanGestureEvent_def Let_def)
next
  case Press
  with assms show ?thesis
    by (simp add: commit_isOpen onPress_def closeSheet_isOpen)
next
  case (Frame v)
  with assms show ?thesis
    by (simp add: animationFrame_def)
next
  case AnimationDone
  with assms show ?thesis
    by (simp add: commit_isOpen animationDone_def runCallback_def closeSheet_isOpen
        split: option.splits animation.splits callback.splits)
next
  case TimingCallback
  with assms show ?thesis
    by (simp add: commit_isOpen closeSheet_isOpen)
qed

lemma run_isOpen_visible:
  assumes "useEnteringAndExitingAnimations (fst c) \<noteq> Some False"
    and "isOpen (snd c) \<longrightarrow> visible (fst c)"
  shows "isOpen (snd (run es c)) \<longrightarrow> visible (fst (run es c))"
  using assms
proof (induction es arbitrary: c)
  case Nil
  then show ?case by simp
next
  case (Cons e es)
  obtain p st where c: "c = (p, st)" by (cases c)
  have "useEnteringAndExitingAnimations (fst (step e c)) \<noteq> Some False"
    using Cons.prems(1) c by (simp add: step_mode)
  moreover have "isOpen (snd (step e c)) \<longrightarrow> visible (fst (step e c))"
    using Cons.prems c step_isOpen_visible [of p st e] by simp
  ultimately show ?case
    using Cons.IH [of "step e c"] by simp
qed

lemma mount_isOpen_visible: "isOpen (mount p) \<longrightarrow> visible p"
  by (simp add: mount_def Let_def commit_isOpen useEffectVisible_def openSheet_def
      closeSheet_def render_def initialState_def)

text \<open>
  Always mounted, \<^verbatim>\<open>openSheet\<close> scrolls the scroll view to the top. Mounted on demand
  it does not touch the scroll view; a closed sheet has none, and the one mounted by
  opening starts at the top.
\<close>

lemma open_from_closed:
  assumes "useEnteringAndExitingAnimations p = Some False \<or> \<not> isOpen st"
  shows "scrollView (snd (step (SetVisible True) (p, st))) = Some 0"
  using assms
  by (auto simp add: handler_defs split: option.splits)

text \<open>
  C3. Take a mounted component after any events, with \<^verbatim>\<open>visible\<close> false. When
  \<^verbatim>\<open>visible\<close> becomes true, the inner scroll view is at the top afterwards, in both
  modes, wherever it was scrolled to before.
\<close>

theorem open_resets_scroll:
  assumes "run evs (p, mount p) = (p', st)" and "\<not> visible p'"
  shows "scrollView (snd (step (SetVisible True) (p', st))) = Some 0"
proof (cases "useEnteringAndExitingAnimations p = Some False")
  case True
  have "useEnteringAndExitingAnimations p' = useEnteringAndExitingAnimations p"
    using run_mode [of evs "(p, mount p)"] assms(1) by simp
  with True have "useEnteringAndExitingAnimations p' = Some False \<or> \<not> isOpen st"
    by simp
  then show ?thesis
    by (rule open_from_closed)
next
  case False
  have "useEnteringAndExitingAnimations (fst (p, mount p)) \<noteq> Some False"
    using False by simp
  moreover have "isOpen (snd (p, mount p)) \<longrightarrow> visible (fst (p, mount p))"
    by (simp add: mount_isOpen_visible)
  ultimately have "isOpen (snd (run evs (p, mount p))) \<longrightarrow> visible (fst (run evs (p, mount p)))"
    by (rule run_isOpen_visible)
  with assms have "useEnteringAndExitingAnimations p' = Some False \<or> \<not> isOpen st"
    by simp
  then show ?thesis
    by (rule open_from_closed)
qed

theorem open_resets_scroll_witness:
  "scrollView (snd (run [Scroll 250, SetVisible False]
       (examplePropsAlwaysMounted, mount examplePropsAlwaysMounted))) = Some 250
   \<and> scrollView (snd (step (SetVisible True) (run [Scroll 250, SetVisible False]
       (examplePropsAlwaysMounted, mount examplePropsAlwaysMounted)))) = Some 0
   \<and> scrollView (snd (step (SetVisible True) (run [Scroll 250, SetVisible False]
       (exampleProps, mount exampleProps)))) = Some 0"
proof -
  let ?a = "run [Scroll 250, SetVisible False]
       (examplePropsAlwaysMounted, mount examplePropsAlwaysMounted)"
  let ?b = "run [Scroll 250, SetVisible False] (exampleProps, mount exampleProps)"
  have a: "?a = (fst ?a, snd ?a)" by simp
  have b: "?b = (fst ?b, snd ?b)" by simp
  have va: "\<not> visible (fst ?a)"
    by (simp add: example_defs handler_defs onScroll_def)
  have vb: "\<not> visible (fst ?b)"
    by (simp add: example_defs handler_defs onScroll_def)
  have "scrollView (snd ?a) = Some 250"
    by (simp add: example_defs handler_defs onScroll_def)
  then show ?thesis
    using open_resets_scroll [OF a va] open_resets_scroll [OF b vb] by simp
qed

section \<open>The begin of a pan gesture\<close>

text \<open>
  C4, in the form that holds of the code. The begin of a pan gesture resets \<^verbatim>\<open>startY\<close> to 0 and changes
  nothing else: \<^verbatim>\<open>canClose\<close> and \<^verbatim>\<open>startedClosing\<close> keep the values they had.
  \<^verbatim>\<open>startedClosing\<close> is reset where a pan gesture ends.
\<close>

theorem pan_begin_resets_startY_only:
  "snd (step (HandlerStateChange BEGAN) (p, st)) = st\<lparr>startY := 0\<rparr>
   \<and> canClose (snd (step (HandlerStateChange BEGAN) (p, st))) = canClose st
   \<and> startedClosing (snd (step (HandlerStateChange BEGAN) (p, st))) = startedClosing st
   \<and> startedClosing (snd (step (HandlerStateChange END) (p, st))) = False"
  by (simp add: handler_defs)

theorem pan_begin_resets_startY_only_witness:
  "snd (step (HandlerStateChange BEGAN) (exampleProps, (openState 0 0)\<lparr>startY := 120\<rparr>))
     = openState 0 0"
  using pan_begin_resets_startY_only [of exampleProps "(openState 0 0)\<lparr>startY := 120\<rparr>"]
  by (simp add: example_defs)

text \<open>
  After a scroll to position 100 the next gesture begins with \<^verbatim>\<open>canClose\<close> false, and
  after a gesture that was cancelled while dragging the next one begins with
  \<^verbatim>\<open>startedClosing\<close> true.
\<close>

theorem pan_begin_counterexample:
  "\<not> canClose (snd (run [Scroll 100, HandlerStateChange BEGAN]
        (exampleProps, mount exampleProps)))
   \<and> startedClosing (snd (run [PanMove 10, HandlerStateChange CANCELLED, HandlerStateChange BEGAN]
        (exampleProps, mount exampleProps)))"
  by (simp add: example_defs handler_defs onScroll_def handlePanGestureEvent_def)

section \<open>The end of a pan gesture\<close>

text \<open>
  C5. Let a pan gesture end with the offset at or past the threshold
  (\<^verbatim>\<open>swipeDownThreshold\<close>, 50 when not given), with \<^verbatim>\<open>onVisibilityChange\<close>
  supplied. The release runs \<^verbatim>\<open>closeSheet(true)\<close>, which calls
  \<^verbatim>\<open>onVisibilityChange(false)\<close> once, and leaves a timing animation to
  \<^verbatim>\<open>height\<close> running whose callback is \<^verbatim>\<open>closeSheet(false)\<close>. When that
  animation ends, through any frames, the close path runs a second time: the state is
  what \<^verbatim>\<open>closeSheet(false)\<close> makes of the state at release with the offset at
  \<^verbatim>\<open>height\<close>, and the call log is still the one call. Always mounted, the second
  run has started its spring to \<^verbatim>\<open>height\<close> from \<^verbatim>\<open>height\<close>, so the offset reads
  \<^verbatim>\<open>height\<close> and rests there; mounted on demand, the second run has set the offset
  back to 0, \<^verbatim>\<open>isOpen\<close> is false and the sheet is no longer rendered.
\<close>

theorem pan_end_past_threshold_closes:
  assumes "threshold p \<le> current (offset st)" and "onVisibilityChangeDefined p"
  shows "calls (snd (step (HandlerStateChange END) (p, st))) = calls st @ [False]
         \<and> running (offset (snd (step (HandlerStateChange END) (p, st))))
             = Some (WithTiming (height p) (Some (CloseSheet False)))
         \<and> snd (run (HandlerStateChange END # map Frame vs @ [AnimationDone]) (p, st))
             = closeSheet p False
                 ((snd (step (HandlerStateChange END) (p, st)))
                    \<lparr>offset := \<lparr>current = height p, running = None\<rparr>\<rparr>)
         \<and> calls (snd (run (HandlerStateChange END # map Frame vs @ [AnimationDone]) (p, st)))
             = calls st @ [False]
         \<and> (if alwaysMounted p
            then offset (snd (run (HandlerStateChange END # map Frame vs
                   @ [AnimationDone]) (p, st)))
                   = \<lparr>current = height p,
                      running = Some (WithSpring (height p)
                        (Some (case customSheetDamping p of Some d \<Rightarrow> d | None \<Rightarrow> 400))
                        (Some (case customSheetMass p of Some m \<Rightarrow> m | None \<Rightarrow> 4 / 10)))\<rparr>
               \<and> current (offset (snd (run (HandlerStateChange END # map Frame vs
                   @ [AnimationDone]) (p, st)))) = height p
               \<and> restingValue (offset (snd (run (HandlerStateChange END # map Frame vs
                   @ [AnimationDone]) (p, st)))) = height p
            else offset (snd (run (HandlerStateChange END # map Frame vs
                   @ [AnimationDone]) (p, st))) = \<lparr>current = 0, running = None\<rparr>
               \<and> \<not> isOpen (snd (run (HandlerStateChange END # map Frame vs
                   @ [AnimationDone]) (p, st)))
               \<and> \<not> mounted p (snd (run (HandlerStateChange END # map Frame vs
                   @ [AnimationDone]) (p, st))))"
  unfolding release_then_done
  using assms
  by (simp add: handler_defs alwaysMounted_def restingValue_def)

theorem pan_end_past_threshold_closes_witness:
  "calls (snd (run [HandlerStateChange END, Frame 400, AnimationDone]
        (exampleProps, openState 0 180))) = [False]
   \<and> running (offset (snd (step (HandlerStateChange END) (exampleProps, openState 0 180))))
       = Some (WithTiming 800 (Some (CloseSheet False)))
   \<and> offset (snd (run [HandlerStateChange END, Frame 400, AnimationDone]
        (exampleProps, openState 0 180))) = \<lparr>current = 0, running = None\<rparr>
   \<and> \<not> mounted exampleProps (snd (run [HandlerStateChange END, Frame 400, AnimationDone]
        (exampleProps, openState 0 180)))
   \<and> calls (snd (run [HandlerStateChange END, Frame 400, AnimationDone]
        (examplePropsAlwaysMounted, openState 0 180))) = [False]
   \<and> offset (snd (run [HandlerStateChange END, Frame 400, AnimationDone]
        (examplePropsAlwaysMounted, openState 0 180)))
       = \<lparr>current = 800, running = Some (WithSpring 800 (Some 400) (Some (4 / 10)))\<rparr>"
  using pan_end_past_threshold_closes [of exampleProps "openState 0 180" "[400]"]
    pan_end_past_threshold_closes [of examplePropsAlwaysMounted "openState 0 180" "[400]"]
  by (simp add: example_defs handler_defs)

text \<open>
  C6. Let a pan gesture end with the offset strictly below the threshold. The handler
  starts a spring to 0 with damping 100, sets \<^verbatim>\<open>canClose\<close> to true and
  \<^verbatim>\<open>startedClosing\<close> to false, and changes nothing else; when the spring has run
  out, through any frames, the offset is 0, and \<^verbatim>\<open>onVisibilityChange\<close> has not been
  called.
\<close>

theorem pan_end_below_threshold_snaps_back:
  assumes "current (offset st) < threshold p"
  shows "handlePanGestureEnd p st =
           st\<lparr>startedClosing := False, canClose := True,
              offset := (offset st)\<lparr>running := Some (WithSpring 0 (Some 100) None)\<rparr>\<rparr>
         \<and> snd (run (HandlerStateChange END # map Frame vs @ [AnimationDone]) (p, st)) =
           st\<lparr>startedClosing := False, canClose := True,
              offset := \<lparr>current = 0, running = None\<rparr>\<rparr>
         \<and> calls (snd (run (HandlerStateChange END # map Frame vs @ [AnimationDone]) (p, st)))
             = calls st"
  unfolding release_then_done
  using assms
  by (simp add: handler_defs)

theorem pan_end_below_threshold_snaps_back_witness:
  "snd (run [HandlerStateChange END, Frame 12, AnimationDone]
        (exampleProps, (openState 0 30)\<lparr>startedClosing := True, startY := 200\<rparr>))
   = (openState 0 0)\<lparr>startY := 200\<rparr>"
  using pan_end_below_threshold_snaps_back
    [of "(openState 0 30)\<lparr>startedClosing := True, startY := 200\<rparr>" exampleProps "[12]"]
  by (simp add: example_defs)

section \<open>Changes of the visible prop\<close>

text \<open>
  C7. A render with a new \<^verbatim>\<open>visible\<close>, true or false, calls \<^verbatim>\<open>onVisibilityChange\<close>
  not at all. Mounted on demand, \<^verbatim>\<open>isOpen\<close> is the new \<^verbatim>\<open>visible\<close> afterwards, and
  the sheet is rendered exactly if it is true; always mounted, the offset comes to rest
  at 0 if it is true and at \<^verbatim>\<open>height\<close> if it is false.
\<close>

theorem visible_change_does_not_notify:
  "calls (snd (step (SetVisible v) (p, st))) = calls st
   \<and> visible (fst (step (SetVisible v) (p, st))) = v
   \<and> (if alwaysMounted p
      then restingValue (offset (snd (step (SetVisible v) (p, st)))) = (if v then 0 else height p)
      else isOpen (snd (step (SetVisible v) (p, st))) = v
         \<and> mounted p (snd (step (SetVisible v) (p, st))) = v)"
  by (simp add: handler_defs alwaysMounted_def restingValue_def height_def
      split: option.splits)

theorem visible_change_does_not_notify_witness:
  "calls (snd (step (SetVisible False) (exampleProps, openState 40 0))) = []
   \<and> \<not> isOpen (snd (step (SetVisible False) (exampleProps, openState 40 0)))
   \<and> restingValue (offset (snd (step (SetVisible False)
        (examplePropsAlwaysMounted, openState 40 0)))) = 800"
  using visible_change_does_not_notify [of False exampleProps "openState 40 0"]
    visible_change_does_not_notify [of False examplePropsAlwaysMounted "openState 40 0"]
  by (simp add: example_defs)

section \<open>The pan-move handler\<close>

text \<open>
  C8. A pan move with \<^verbatim>\<open>canClose\<close> true marks the close-drag as started, latches
  \<^verbatim>\<open>startY\<close> to the reported position when it is unset (0) and keeps it otherwise,
  and sets the offset to the larger of \<open>-(startY - y) + offset\<close> and \<open>0\<close>, so the
  offset is not negative afterwards. A pan move with \<^verbatim>\<open>canClose\<close> false changes
  nothing.
\<close>

theorem handlePanGestureEvent_offset:
  "handlePanGestureEvent y st =
     (if canClose st then
        st\<lparr>startedClosing := True,
           startY := (if startY st = 0 then y else startY st),
           offset := \<lparr>current = max (- ((if startY st = 0 then y else startY st) - y)
                                     + current (offset st)) 0,
                      running = None\<rparr>\<rparr>
      else st)
   \<and> (if canClose st then 0 \<le> current (offset (handlePanGestureEvent y st))
      else offset (handlePanGestureEvent y st) = offset st)"
  by (simp add: handlePanGestureEvent_def assignNumber_def Let_def max_def)

theorem handlePanGestureEvent_offset_witness:
  "handlePanGestureEvent 130 ((openState 0 7)\<lparr>startY := 100\<rparr>)
     = (openState 0 37)\<lparr>startY := 100, startedClosing := True\<rparr>
   \<and> handlePanGestureEvent 130 ((openState 90 7)\<lparr>canClose := False\<rparr>)
     = (openState 90 7)\<lparr>canClose := False\<rparr>"
  using handlePanGestureEvent_offset [of 130 "(openState 0 7)\<lparr>startY := 100\<rparr>"]
    handlePanGestureEvent_offset [of 130 "(openState 90 7)\<lparr>canClose := False\<rparr>"]
  by (simp add: example_defs)

section \<open>What the callback is called with\<close>

lemma closeSheet_calls:
  "True \<notin> set (calls st) \<Longrightarrow> True \<notin> set (calls (closeSheet p b st))"
  by (simp add: closeSheet_def Let_def)

lemma render_calls: "calls (render p st) = calls st"
  by (simp add: render_def)

lemma commit_calls: "calls (commit p st0 st) = calls st"
  by (simp add: commit_def render_calls)

lemma useEffectVisible_calls: "calls (useEffectVisible p st) = calls st"
  by (simp add: useEffectVisible_def openSheet_def closeSheet_def Let_def)

lemma onScroll_calls: "calls (onScroll p y st) = calls st"
  by (simp add: onScroll_def)

lemma handlePanGestureEvent_calls: "calls (handlePanGestureEvent y st) = calls st"
  by (simp add: handlePanGestureEvent_def Let_def)

lemma handlePanGestureEnd_calls:
  "True \<notin> set (calls st) \<Longrightarrow> True \<notin> set (calls (handlePanGestureEnd p st))"
  by (simp add: handlePanGestureEnd_def Let_def closeSheet_calls)

lemma onHandlerStateChange_calls:
  "True \<notin> set (calls st) \<Longrightarrow> True \<notin> set (calls (onHandlerStateChange p g st))"
  by (simp add: onHandlerStateChange_def handlePanGestureEnd_calls handlePanGestureStart_def)

lemma animationDone_calls:
  "True \<notin> set (calls st) \<Longrightarrow> True \<notin> set (calls (animationDone p st))"
  by (simp add: animationDone_def runCallback_def closeSheet_calls
      split: option.splits animation.splits callback.splits)

lemma step_calls:
  assumes "True \<notin> set (calls st)"
  shows "True \<notin> set (calls (snd (step e (p, st))))"
proof (cases e)
  case (SetVisible v)
  with assms show ?thesis
    by (simp add: Let_def commit_calls useEffectVisible_calls render_calls)
next
  case (Scroll y)
  with assms show ?thesis
    by (simp add: onScroll_calls split: option.splits)
next
  case (HandlerStateChange g)
  with assms show ?thesis
    by (simp add: commit_calls onHandlerStateChange_calls)
next
  case (PanMove y)
  with assms show ?thesis
    by (simp add: handlePanGestureEvent_calls)
next
  case Press
  with assms show ?thesis
    by (simp add: commit_calls onPress_def closeSheet_calls)
next
  case (Frame v)
  with assms show ?thesis
    by (simp add: animationFrame_def)
next
  case AnimationDone
  with assms show ?thesis
    by (simp add: commit_calls animationDone_calls)
next
  case TimingCallback
  with assms show ?thesis
    by (simp add: commit_calls closeSheet_calls)
qed

lemma run_calls:
  "True \<notin> set (calls (snd c)) \<Longrightarrow> True \<notin> set (calls (snd (run es c)))"
proof (induction es arbitrary: c)
  case Nil
  then show ?case by simp
next
  case (Cons e es)
  obtain p st where c: "c = (p, st)" by (cases c)
  with Cons.prems have "True \<notin> set (calls (snd (step e c)))"
    by (simp add: step_calls)
  then show ?case
    using Cons.IH by simp
qed

lemma mount_calls: "calls (mount p) = []"
  by (simp add: mount_def Let_def commit_calls useEffectVisible_calls render_calls
      initialState_def)

text \<open>
  C9. From mounting on, through any events (renders with any \<^verbatim>\<open>visible\<close>, scrolls,
  gesture state changes, pan moves, presses, animation frames and ends),
  \<^verbatim>\<open>onVisibilityChange\<close> is never called with \<^verbatim>\<open>true\<close>: \<^verbatim>\<open>openSheet\<close>, the only
  function that would, is only ever called with \<^verbatim>\<open>updateOnChange\<close> false.
\<close>

theorem callback_never_called_with_true:
  "True \<notin> set (calls (snd (run evs (p, mount p))))"
  by (rule run_calls) (simp add: mount_calls)

theorem callback_never_called_with_true_witness:
  "calls (snd (run [Scroll 0, PanMove 10, PanMove 200, HandlerStateChange END, AnimationDone,
       SetVisible False, SetVisible True, Press]
     (exampleProps, mount exampleProps))) = [False, False]"
  using callback_never_called_with_true
    [of "[Scroll 0, PanMove 10, PanMove 200, HandlerStateChange END, AnimationDone,
       SetVisible False, SetVisible True, Press]" exampleProps]
  by (simp add: example_defs handler_defs onScroll_def handlePanGestureEvent_def)

section \<open>Closing a sheet mounted on demand\<close>

text \<open>
  C10. Mounted on demand, \<^verbatim>\<open>closeSheet\<close> sets the offset to 0, with no animation, and
  \<^verbatim>\<open>isOpen\<close> to false, whatever its argument; the sheet has an exiting transition.
  After a pan gesture that ends at or past the threshold, once its timing animation has
  run to its end, the offset is 0 again, with no animation running, and \<^verbatim>\<open>isOpen\<close> is
  false.
\<close>

theorem closeSheet_on_demand_rests_at_zero:
  assumes "\<not> alwaysMounted p"
  shows "offset (closeSheet p b st) = \<lparr>current = 0, running = None\<rparr>
         \<and> \<not> isOpen (closeSheet p b st)
         \<and> sheetExiting p \<noteq> None
         \<and> (if threshold p \<le> current (offset st)
            then offset (snd (run (HandlerStateChange END # map Frame vs @ [AnimationDone])
                   (p, st))) = \<lparr>current = 0, running = None\<rparr>
               \<and> \<not> isOpen (snd (run (HandlerStateChange END # map Frame vs @ [AnimationDone])
                   (p, st)))
            else isOpen (snd (run (HandlerStateChange END # map Frame vs @ [AnimationDone])
                   (p, st))) = isOpen st)"
  unfolding release_then_done
  using assms
  by (simp add: handler_defs alwaysMounted_def sheetExiting_def)

theorem closeSheet_on_demand_rests_at_zero_witness:
  "offset (closeSheet exampleProps True (openState 0 180)) = \<lparr>current = 0, running = None\<rparr>
   \<and> offset (snd (run [HandlerStateChange END, Frame 400, AnimationDone]
        (exampleProps, openState 0 180))) = \<lparr>current = 0, running = None\<rparr>
   \<and> height exampleProps = 800"
  using closeSheet_on_demand_rests_at_zero [of exampleProps True "openState 0 180" "[400]"]
  by (simp add: example_defs)

end
